theory Spec2Isabelle
  imports Main
begin

section \<open>The qBittorrent Web API client: request dispatch, login and target normalisation\<close>

text \<open>
  A shallow embedding of \<^verbatim>\<open>src/qbittorrent/Client.py\<close>: the constructor, \<^verbatim>\<open>login\<close>,
  \<^verbatim>\<open>_request\<close> (with \<^verbatim>\<open>_get\<close> and \<^verbatim>\<open>_post\<close>), \<^verbatim>\<open>_process_infohash_list\<close> and
  \<^verbatim>\<open>set_file_priority\<close>. The client object and the outside world (the requests that were
  sent, the session objects that were created) are passed explicitly; an exception is the
  \<open>Inl\<close> branch of the result, returned together with the state as the exception leaves it.
\<close>

subsection \<open>Python values\<close>

text \<open>
  The dynamically typed values that the modelled methods handle. Floating point numbers are
  left out.
\<close>

datatype pyval =
    PNone
  | PBool bool
  | PInt int
  | PStr string
  | PList "pyval list"
  | PDict "(string \<times> pyval) list"

text \<open>The exceptions that the modelled code can raise.\<close>

datatype error =
    WrongCredentials
  | HTTPError int string
  | RequestException
  | ValueError string
  | TypeError string
  | AttributeError

text \<open>\<^verbatim>\<open>d[k] = v\<close> on a dictionary kept as an association list, and \<^verbatim>\<open>d.get(k)\<close>.\<close>

fun dict_set :: "(string \<times> pyval) list \<Rightarrow> string \<Rightarrow> pyval \<Rightarrow> (string \<times> pyval) list" where
  "dict_set [] k v = [(k, v)]"
| "dict_set ((k', v') # d) k v = (if k' = k then (k, v) # d else (k', v') # dict_set d k v)"

fun dict_get :: "(string \<times> pyval) list \<Rightarrow> string \<Rightarrow> pyval option" where
  "dict_get [] k = None"
| "dict_get ((k', v') # d) k = (if k' = k then Some v' else dict_get d k)"

subsection \<open>Strings\<close>

text \<open>
  \<^verbatim>\<open>str.lower\<close> on the ASCII letters \<^verbatim>\<open>A\<close> to \<^verbatim>\<open>Z\<close> (codes 65 to 90, moved up by 32);
  every other character is kept. Strings are ASCII here: info hashes are hexadecimal, and
  the lower-casing of other alphabets is not modelled.
\<close>

definition lower_char :: "char \<Rightarrow> char" where
  "lower_char c =
     (let n = (of_char c :: nat) in if 65 \<le> n \<and> n \<le> 90 then char_of (n + 32) else c)"

definition lower :: "string \<Rightarrow> string" where
  "lower s = map lower_char s"

text \<open>\<^verbatim>\<open>sep.join(xs)\<close>.\<close>

fun join :: "string \<Rightarrow> string list \<Rightarrow> string" where
  "join sep [] = []"
| "join sep [x] = x"
| "join sep (x # y # ys) = x @ sep @ join sep (y # ys)"

text \<open>\<^verbatim>\<open>s.endswith(t)\<close>.\<close>

definition endswith :: "string \<Rightarrow> string \<Rightarrow> bool" where
  "endswith s t = (length t \<le> length s \<and> drop (length s - length t) s = t)"

subsection \<open>The transport\<close>

text \<open>
  One HTTP request as \<^verbatim>\<open>requests.Session.get\<close> or \<^verbatim>\<open>post\<close> receives it: the session
  object it is sent on, the verb, the URL, the \<^verbatim>\<open>data\<close> argument and the remaining keyword
  arguments (\<^verbatim>\<open>verify\<close>, \<^verbatim>\<open>timeout\<close>, \<^verbatim>\<open>params\<close>, ...). A keyword that is not passed is
  absent from \<open>rq_kwargs\<close>.
\<close>

record http_request =
  rq_session :: nat
  rq_verb :: string
  rq_url :: string
  rq_data :: pyval
  rq_kwargs :: "(string \<times> pyval) list"

text \<open>
  What comes back: a response with its status code and text, or an exception of the
  transport (connection refused, timeout).
\<close>

datatype reply = Response int string | TransportError

text \<open>
  The server is any function from the requests received so far and the current request to
  a reply. The world records the requests in the order they were sent and counts the
  \<^verbatim>\<open>requests.Session()\<close> objects created; a session object is identified by its number.
\<close>

type_synonym server = "http_request list \<Rightarrow> http_request \<Rightarrow> reply"

record world =
  sent :: "http_request list"
  sessions :: nat

definition send :: "server \<Rightarrow> world \<Rightarrow> http_request \<Rightarrow> reply \<times> world" where
  "send srv w r = (srv (sent w) r, w\<lparr>sent := sent w @ [r]\<rparr>)"

subsection \<open>The client\<close>

record client =
  username :: string
  password :: string
  url :: string
  verify :: bool
  timeout :: pyval
  max_attempts_on_403 :: int
  session :: "nat option"
  is_authenticated :: bool

text \<open>
  The request of \<^verbatim>\<open>login\<close>, and \<^verbatim>\<open>login\<close>: a new session object is assigned to \<^verbatim>\<open>self._session\<close> first, then the
  credentials are posted on it with the \<^verbatim>\<open>verify\<close> keyword only. The text \<^verbatim>\<open>"Ok."\<close> makes
  it return; anything else raises \<^verbatim>\<open>WrongCredentials\<close>.
\<close>

definition login_request :: "nat \<Rightarrow> client \<Rightarrow> http_request" where
  "login_request sid c =
     \<lparr>rq_session = sid, rq_verb = ''POST'', rq_url = url c @ ''auth/login'',
      rq_data = PDict [(''username'', PStr (username c)), (''password'', PStr (password c))],
      rq_kwargs = [(''verify'', PBool (verify c))]\<rparr>"

fun login :: "server \<Rightarrow> client \<times> world \<Rightarrow> (error + unit) \<times> client \<times> world" where
  "login srv (c, w) =
     (let sid = sessions w;
          c1 = c\<lparr>session := Some sid\<rparr>;
          w1 = w\<lparr>sessions := sid + 1\<rparr>
      in (case send srv w1 (login_request sid c1) of
            (TransportError, w2) \<Rightarrow> (Inl RequestException, c1, w2)
          | (Response st txt, w2) \<Rightarrow>
              if txt = ''Ok.'' then (Inr (), c1, w2) else (Inl WrongCredentials, c1, w2)))"

text \<open>
  \<^verbatim>\<open>__init__\<close>: stores the settings, completes the URL, and logs in. The client is returned
  also when \<^verbatim>\<open>login\<close> raises, to show the state the exception leaves.
\<close>

definition init ::
  "server \<Rightarrow> string \<Rightarrow> string \<Rightarrow> string \<Rightarrow> bool \<Rightarrow> pyval \<Rightarrow> int \<Rightarrow> world
     \<Rightarrow> (error + unit) \<times> client \<times> world" where
  "init srv url0 username0 password0 verify0 timeout0 max_attempts w =
     (let url1 = (if \<not> endswith url0 ''/'' then url0 @ ''/'' else url0)
      in login srv
           (\<lparr>username = username0, password = password0, url = url1 @ ''api/v2/'',
             verify = verify0, timeout = timeout0, max_attempts_on_403 = max_attempts,
             session = None, is_authenticated = False\<rparr>, w))"

subsection \<open>Dispatching a request\<close>

text \<open>
  The JSON decoder \<^verbatim>\<open>json.loads\<close> is a parameter: \<open>loads s = None\<close> stands for the
  \<^verbatim>\<open>ValueError\<close> it raises on text that is not JSON.
\<close>

type_synonym decoder = "string \<Rightarrow> pyval option"

text \<open>\<^verbatim>\<open>Response.raise_for_status\<close>: the status codes from 400 up to 599 raise.\<close>

definition raise_for_status :: "int \<Rightarrow> string \<Rightarrow> error option" where
  "raise_for_status st u = (if 400 \<le> st \<and> st < 600 then Some (HTTPError st u) else None)"

text \<open>
  The end of \<^verbatim>\<open>_request\<close>, once the response is not retried: the status check, the empty
  body, and the decoding with its fallback to the text.
\<close>

definition decode_response :: "decoder \<Rightarrow> int \<Rightarrow> string \<Rightarrow> string \<Rightarrow> error + pyval" where
  "decode_response loads st u txt =
     (case raise_for_status st u of
        Some e \<Rightarrow> Inl e
      | None \<Rightarrow>
          if length txt = 0 then
            (case loads ''{}'' of None \<Rightarrow> Inl (ValueError ''json'') | Some v \<Rightarrow> Inr v)
          else
            (case loads txt of None \<Rightarrow> Inr (PStr txt) | Some v \<Rightarrow> Inr v))"

text \<open>
  The request that \<^verbatim>\<open>_request\<close> sends: a GET without \<^verbatim>\<open>data\<close> when the method is
  \<^verbatim>\<open>"get"\<close>, a POST with it otherwise.
\<close>

definition outgoing ::
  "nat \<Rightarrow> string \<Rightarrow> string \<Rightarrow> pyval \<Rightarrow> (string \<times> pyval) list \<Rightarrow> http_request" where
  "outgoing sid method final_url data kwargs =
     (if method = ''get''
      then \<lparr>rq_session = sid, rq_verb = ''GET'', rq_url = final_url, rq_data = PNone,
            rq_kwargs = kwargs\<rparr>
      else \<lparr>rq_session = sid, rq_verb = ''POST'', rq_url = final_url, rq_data = data,
            rq_kwargs = kwargs\<rparr>)"

text \<open>
  \<^verbatim>\<open>_request\<close>. The keyword arguments get \<^verbatim>\<open>verify\<close> and \<^verbatim>\<open>timeout\<close> from the client; a
  403 while \<^verbatim>\<open>attempt <= self._max_attempts_on_403\<close> logs in again and repeats the call
  with \<^verbatim>\<open>attempt + 1\<close>. A client without a session object fails on the attribute access.
\<close>

function request ::
  "server \<Rightarrow> decoder \<Rightarrow> string \<Rightarrow> string \<Rightarrow> pyval \<Rightarrow> int \<Rightarrow> (string \<times> pyval) list
     \<Rightarrow> client \<times> world \<Rightarrow> (error + pyval) \<times> client \<times> world" where
  "request srv loads endpoint method data attempt kwargs (c, w) =
     (let final_url = url c @ endpoint;
          kwargs1 = dict_set kwargs ''verify'' (PBool (verify c));
          kwargs2 = dict_set kwargs1 ''timeout'' (timeout c)
      in (case session c of
            None \<Rightarrow> (Inl AttributeError, c, w)
          | Some sid \<Rightarrow>
              (case send srv w (outgoing sid method final_url data kwargs2) of
                 (TransportError, w1) \<Rightarrow> (Inl RequestException, c, w1)
               | (Response st txt, w1) \<Rightarrow>
                   if st = 403 \<and> attempt \<le> max_attempts_on_403 c then
                     (case login srv (c, w1) of
                        (Inl e, cw2) \<Rightarrow> (Inl e, cw2)
                      | (Inr u, cw2) \<Rightarrow>
                          request srv loads endpoint method data (attempt + 1) kwargs2 cw2)
                   else (decode_response loads st final_url txt, c, w1))))"
  by pat_completeness auto

termination request
proof (relation "measure (\<lambda>(srv, loads, endpoint, method, data, attempt, kwargs, c, w).
                   nat (max_attempts_on_403 c + 1 - attempt))", goal_cases)
  case 1
  show ?case by simp
next
  case (2 srv loads endpoint meth data attempt kwargs c w x xa xb x2 xaa y x11 x12 xc ya)
  obtain c2 w2 where ya: "ya = (c2, w2)" by (cases ya)
  from 2 ya have "login srv (c, y) = (xc, c2, w2)" by simp
  then have "max_attempts_on_403 c2 = max_attempts_on_403 c"
    by (auto simp: Let_def send_def split: reply.splits if_splits)
  with 2 ya show ?case by simp
qed

text \<open>
  \<^verbatim>\<open>_get\<close> and \<^verbatim>\<open>_post\<close> start \<^verbatim>\<open>_request\<close> with the default \<^verbatim>\<open>attempt = 0\<close>. The
  keyword arguments are the ones the callers pass (\<^verbatim>\<open>params\<close>, \<^verbatim>\<open>files\<close>), none of which
  is a parameter name of \<^verbatim>\<open>_request\<close>.
\<close>

definition get ::
  "server \<Rightarrow> decoder \<Rightarrow> string \<Rightarrow> (string \<times> pyval) list \<Rightarrow> client \<times> world
     \<Rightarrow> (error + pyval) \<times> client \<times> world" where
  "get srv loads endpoint kwargs cw = request srv loads endpoint ''get'' PNone 0 kwargs cw"

definition post ::
  "server \<Rightarrow> decoder \<Rightarrow> string \<Rightarrow> pyval \<Rightarrow> (string \<times> pyval) list \<Rightarrow> client \<times> world
     \<Rightarrow> (error + pyval) \<times> client \<times> world" where
  "post srv loads endpoint data kwargs cw = request srv loads endpoint ''post'' data 0 kwargs cw"

subsection \<open>Normalising the targets of a batch command\<close>

text \<open>
  The argument of \<^verbatim>\<open>_process_infohash_list\<close> is a list of info hashes or one info hash
  (which may be the word \<^verbatim>\<open>all\<close>).
\<close>

datatype infohash_arg = Single string | Many "string list"

fun process_infohash_list :: "infohash_arg \<Rightarrow> pyval" where
  "process_infohash_list (Many hs) = PDict [(''hashes'', PStr (join ''|'' (map lower hs)))]"
| "process_infohash_list (Single h) = PDict [(''hashes'', PStr (lower h))]"

subsection \<open>Setting the priority of a file\<close>

text \<open>
  The integer that a value is equal to under Python's \<^verbatim>\<open>==\<close>: an \<^verbatim>\<open>int\<close> itself, and
  \<^verbatim>\<open>True\<close> and \<^verbatim>\<open>False\<close> as 1 and 0; no other modelled value equals an integer.
\<close>

fun py_num :: "pyval \<Rightarrow> int option" where
  "py_num (PInt i) = Some i"
| "py_num (PBool b) = Some (if b then 1 else 0)"
| "py_num v = None"

text \<open>\<^verbatim>\<open>v in [i1, ..., in]\<close> for a list of integer literals.\<close>

definition py_in_ints :: "pyval \<Rightarrow> int list \<Rightarrow> bool" where
  "py_in_ints v xs = list_ex (\<lambda>i. py_num v = Some i) xs"

text \<open>\<^verbatim>\<open>isinstance(v, int)\<close>; \<^verbatim>\<open>bool\<close> is a subclass of \<^verbatim>\<open>int\<close>.\<close>

fun isinstance_int :: "pyval \<Rightarrow> bool" where
  "isinstance_int (PInt i) = True"
| "isinstance_int (PBool b) = True"
| "isinstance_int v = False"

text \<open>
  \<^verbatim>\<open>set_file_priority\<close>: the priority and the file id are any Python values, the info hash
  is a string. Both checks come before the dictionary is built and posted.
\<close>

definition set_file_priority ::
  "server \<Rightarrow> decoder \<Rightarrow> string \<Rightarrow> pyval \<Rightarrow> pyval \<Rightarrow> client \<times> world
     \<Rightarrow> (error + pyval) \<times> client \<times> world" where
  "set_file_priority srv loads infohash file_id priority cw =
     (if \<not> py_in_ints priority [0, 1, 2, 4, 6, 7] then
        (Inl (ValueError ''Invalid priority, refer WEB-UI docs for info.''), cw)
      else if \<not> isinstance_int file_id then
        (Inl (TypeError ''File ID must be an int''), cw)
      else post srv loads ''torrents/filePrio''
             (PDict [(''hash'', PStr (lower infohash)), (''id'', file_id),
                     (''priority'', priority)]) [] cw)"

subsection \<open>Observing the requests\<close>

text \<open>
  How many of the requests went to a given URL, and the requests that a call added to the
  ones sent before it.
\<close>

definition calls_to :: "string \<Rightarrow> http_request list \<Rightarrow> nat" where
  "calls_to u rs = length (filter (\<lambda>r. rq_url r = u) rs)"

definition new_requests :: "world \<Rightarrow> world \<Rightarrow> http_request list" where
  "new_requests w w' = drop (length (sent w)) (sent w')"

text \<open>
  The two kinds of request that a call of \<^verbatim>\<open>_request\<close> sends: to its endpoint with the
  client's timeout, and to the login endpoint without a timeout keyword.
\<close>

definition target_ok :: "client \<Rightarrow> string \<Rightarrow> http_request \<Rightarrow> bool" where
  "target_ok c endpoint r \<longleftrightarrow>
     (rq_url r = url c @ endpoint \<and> dict_get (rq_kwargs r) ''timeout'' = Some (timeout c))
     \<or> (rq_url r = url c @ ''auth/login'' \<and> dict_get (rq_kwargs r) ''timeout'' = None)"

subsection \<open>Sample servers and states\<close>

text \<open>
  Concrete servers, a decoder and client states on which the theorems below are
  instantiated. \<open>stub_server n st body\<close> accepts every login, answers the first \<open>n\<close>
  requests to any other URL with 403 and the later ones with \<open>st\<close> and \<open>body\<close>;
  \<open>stub_forbidden\<close> accepts every login and answers everything else with 403;
  \<open>stub_rejecting\<close> answers everything with status 200 and the text \<^verbatim>\<open>Fails.\<close>.
  \<open>sample_loads\<close> decodes a few JSON texts and rejects every other text.
\<close>

definition stub_server :: "nat \<Rightarrow> int \<Rightarrow> string \<Rightarrow> server" where
  "stub_server n st body h r =
     (if rq_url r = ''http://qb:8080/api/v2/auth/login'' then Response 200 ''Ok.''
      else if calls_to (rq_url r) h < n then Response 403 ''Forbidden''
      else Response st body)"

definition stub_forbidden :: server where
  "stub_forbidden h r =
     (if rq_url r = ''http://qb:8080/api/v2/auth/login'' then Response 200 ''Ok.''
      else Response 403 ''Forbidden'')"

definition stub_rejecting :: server where
  "stub_rejecting h r = Response 200 ''Fails.''"

definition sample_loads :: decoder where
  "sample_loads s =
     (if s = ''{}'' then Some (PDict [])
      else if s = ''[]'' then Some (PList [])
      else if s = ''true'' then Some (PBool True)
      else if s = ''null'' then Some PNone
      else None)"

definition fresh_world :: world where
  "fresh_world = \<lparr>sent = [], sessions = 0\<rparr>"

definition sample_client :: client where
  "sample_client =
     \<lparr>username = ''admin'', password = ''adminadmin'', url = ''http://qb:8080/api/v2/'',
      verify = True, timeout = PInt 5, max_attempts_on_403 = 3, session = Some 0,
      is_authenticated = False\<rparr>"

definition sample_world :: world where
  "sample_world = \<lparr>sent = [login_request 0 sample_client], sessions = 1\<rparr>"

section \<open>Properties\<close>

subsection \<open>Auxiliary facts\<close>

lemma login_unfold:
  "login srv (c, w) =
     (case srv (sent w) (login_request (sessions w) (c\<lparr>session := Some (sessions w)\<rparr>)) of
        TransportError \<Rightarrow> Inl RequestException
      | Response st txt \<Rightarrow> if txt = ''Ok.'' then Inr () else Inl WrongCredentials,
      c\<lparr>session := Some (sessions w)\<rparr>,
      \<lparr>sent = sent w @ [login_request (sessions w) (c\<lparr>session := Some (sessions w)\<rparr>)],
       sessions = sessions w + 1\<rparr>)"
  by (simp add: Let_def send_def split: reply.splits)

declare login.simps [simp del]
declare request.simps [simp del]

lemma lower_Nil_iff: "lower s = [] \<longleftrightarrow> s = []"
  by (simp add: lower_def)

lemma join_Nil_iff: "sep \<noteq> [] \<Longrightarrow> join sep xs = [] \<longleftrightarrow> xs = [] \<or> xs = [[]]"
  by (induction sep xs rule: join.induct) auto

lemma map_lower_single: "map lower hs = [[]] \<longleftrightarrow> hs = [[]]"
  by (cases hs) (auto simp: lower_Nil_iff)

lemma rq_url_outgoing: "rq_url (outgoing sid method u data kwargs) = u"
  by (simp add: outgoing_def)

lemma rq_kwargs_outgoing: "rq_kwargs (outgoing sid method u data kwargs) = kwargs"
  by (simp add: outgoing_def)

lemma rq_url_login_request: "rq_url (login_request sid c) = url c @ ''auth/login''"
  by (simp add: login_request_def)

lemma calls_to_snoc:
  "calls_to u (rs @ [r]) = calls_to u rs + (if rq_url r = u then 1 else 0)"
  by (simp add: calls_to_def)

lemma dict_get_set_same: "dict_get (dict_set d k v) k = Some v"
  by (induction d) auto

lemma request_final:
  assumes "session c = Some sid"
    and "srv (sent w) (outgoing sid method (url c @ endpoint) data
            (dict_set (dict_set kwargs ''verify'' (PBool (verify c))) ''timeout'' (timeout c)))
         = Response st txt"
    and "\<not> (st = 403 \<and> attempt \<le> max_attempts_on_403 c)"
  shows "request srv loads endpoint method data attempt kwargs (c, w) =
           (decode_response loads st (url c @ endpoint) txt, c,
            w\<lparr>sent := sent w @ [outgoing sid method (url c @ endpoint) data
              (dict_set (dict_set kwargs ''verify'' (PBool (verify c))) ''timeout'' (timeout c))]\<rparr>)"
  using assms by (auto simp: request.simps [of _ _ _ _ _ attempt] send_def Let_def)

lemma request_retry:
  assumes "session c = Some sid"
    and "srv (sent w) (outgoing sid method (url c @ endpoint) data
            (dict_set (dict_set kwargs ''verify'' (PBool (verify c))) ''timeout'' (timeout c)))
         = Response 403 txt"
    and "attempt \<le> max_attempts_on_403 c"
    and "srv (sent w @ [outgoing sid method (url c @ endpoint) data
            (dict_set (dict_set kwargs ''verify'' (PBool (verify c))) ''timeout'' (timeout c))])
           (login_request (sessions w) (c\<lparr>session := Some (sessions w)\<rparr>)) = Response st ''Ok.''"
  shows "request srv loads endpoint method data attempt kwargs (c, w) =
           request srv loads endpoint method data (attempt + 1)
             (dict_set (dict_set kwargs ''verify'' (PBool (verify c))) ''timeout'' (timeout c))
             (c\<lparr>session := Some (sessions w)\<rparr>,
              \<lparr>sent = sent w @ [outgoing sid method (url c @ endpoint) data
                  (dict_set (dict_set kwargs ''verify'' (PBool (verify c))) ''timeout'' (timeout c)),
                  login_request (sessions w) (c\<lparr>session := Some (sessions w)\<rparr>)],
               sessions = sessions w + 1\<rparr>)"
  using assms by (simp add: request.simps [of _ _ _ _ _ attempt] send_def login_unfold Let_def)


lemma always_forbidden_from:
  assumes fb: "\<forall>h r. rq_url r = base @ endpoint \<longrightarrow> (\<exists>t. srv h r = Response 403 t)"
    and ok: "\<forall>h r. rq_url r = base @ ''auth/login'' \<longrightarrow> (\<exists>st. srv h r = Response st ''Ok.'')"
    and ne: "endpoint \<noteq> ''auth/login''"
  shows "url c = base \<Longrightarrow> session c = Some sid \<Longrightarrow> attempt \<le> max_attempts_on_403 c + 1 \<Longrightarrow>
         nat (max_attempts_on_403 c + 1 - attempt) = m \<Longrightarrow>
         \<exists>c' w'. request srv loads endpoint method data attempt kwargs (c, w)
                   = (Inl (HTTPError 403 (base @ endpoint)), c', w')
               \<and> calls_to (base @ endpoint) (sent w') = calls_to (base @ endpoint) (sent w) + m + 1
               \<and> calls_to (base @ ''auth/login'') (sent w')
                   = calls_to (base @ ''auth/login'') (sent w) + m"
proof (induction m arbitrary: attempt kwargs c w sid)
  case 0
  let ?kw = "dict_set (dict_set kwargs ''verify'' (PBool (verify c))) ''timeout'' (timeout c)"
  let ?rq = "outgoing sid method (url c @ endpoint) data ?kw"
  have "rq_url ?rq = base @ endpoint"
    using 0 by (simp add: rq_url_outgoing)
  with fb obtain t where t: "srv (sent w) ?rq = Response 403 t"
    by blast
  from 0 have gt: "\<not> (403 = (403::int) \<and> attempt \<le> max_attempts_on_403 c)" by simp
  have "request srv loads endpoint method data attempt kwargs (c, w) =
          (decode_response loads 403 (url c @ endpoint) t, c, w\<lparr>sent := sent w @ [?rq]\<rparr>)"
    using \<open>session c = Some sid\<close> t gt by (rule request_final)
  with 0 ne show ?case
    by (simp add: decode_response_def raise_for_status_def calls_to_snoc rq_url_outgoing)
next
  case (Suc m)
  let ?kw = "dict_set (dict_set kwargs ''verify'' (PBool (verify c))) ''timeout'' (timeout c)"
  let ?rq = "outgoing sid method (url c @ endpoint) data ?kw"
  let ?c2 = "c\<lparr>session := Some (sessions w)\<rparr>"
  let ?lg = "login_request (sessions w) ?c2"
  let ?w2 = "\<lparr>sent = sent w @ [?rq, ?lg], sessions = sessions w + 1\<rparr>"
  have "rq_url ?rq = base @ endpoint"
    using Suc.prems by (simp add: rq_url_outgoing)
  with fb obtain t where t: "srv (sent w) ?rq = Response 403 t"
    by blast
  from Suc.prems have le: "attempt \<le> max_attempts_on_403 c" by simp
  have "rq_url ?lg = base @ ''auth/login''"
    using Suc.prems by (simp add: rq_url_login_request)
  with ok obtain st where st: "srv (sent w @ [?rq]) ?lg = Response st ''Ok.''"
    by blast
  have step: "request srv loads endpoint method data attempt kwargs (c, w) =
          request srv loads endpoint method data (attempt + 1) ?kw (?c2, ?w2)"
    using \<open>session c = Some sid\<close> t le st by (rule request_retry)
  have "\<exists>c' w'. request srv loads endpoint method data (attempt + 1) ?kw (?c2, ?w2)
                   = (Inl (HTTPError 403 (base @ endpoint)), c', w')
               \<and> calls_to (base @ endpoint) (sent w') = calls_to (base @ endpoint) (sent ?w2) + m + 1
               \<and> calls_to (base @ ''auth/login'') (sent w')
                   = calls_to (base @ ''auth/login'') (sent ?w2) + m"
    by (rule Suc.IH [where sid = "sessions w"]) (use Suc.prems in simp_all)
  moreover have "calls_to (base @ endpoint) (sent ?w2) = calls_to (base @ endpoint) (sent w) + 1"
    using Suc.prems ne calls_to_snoc [of "base @ endpoint" "sent w @ [?rq]" ?lg]
      calls_to_snoc [of "base @ endpoint" "sent w" ?rq]
    by (simp add: rq_url_outgoing rq_url_login_request)
  moreover have "calls_to (base @ ''auth/login'') (sent ?w2) = calls_to (base @ ''auth/login'') (sent w) + 1"
    using Suc.prems ne calls_to_snoc [of "base @ ''auth/login''" "sent w @ [?rq]" ?lg]
      calls_to_snoc [of "base @ ''auth/login''" "sent w" ?rq]
    by (simp add: rq_url_outgoing rq_url_login_request)
  ultimately show ?case using step by auto
qed




lemma request_sends:
  "\<exists>rs. sent (snd (snd (request srv loads endpoint method data attempt kwargs (c, w)))) = sent w @ rs
        \<and> (\<forall>r\<in>set rs. target_ok c endpoint r)"
proof (induction srv loads endpoint "method" data attempt kwargs "(c, w)" arbitrary: c w
       rule: request.induct)
  case (1 srv loads endpoint meth data attempt kwargs c w)
  let ?kw = "dict_set (dict_set kwargs ''verify'' (PBool (verify c))) ''timeout'' (timeout c)"
  show ?case
  proof (cases "session c")
    case None
    then show ?thesis by (simp add: request.simps [of _ _ _ _ _ attempt])
  next
    case (Some sid)
    let ?rq = "outgoing sid meth (url c @ endpoint) data ?kw"
    have rq: "target_ok c endpoint ?rq"
      by (simp add: target_ok_def rq_url_outgoing rq_kwargs_outgoing dict_get_set_same)
    show ?thesis
    proof (cases "srv (sent w) ?rq")
      case TransportError
      with Some rq show ?thesis
        by (simp add: request.simps [of _ _ _ _ _ attempt] Let_def send_def)
    next
      case (Response st body)
      show ?thesis
      proof (cases "st = 403 \<and> attempt \<le> max_attempts_on_403 c")
        case False
        with Some Response rq show ?thesis
          by (auto simp: request.simps [of _ _ _ _ _ attempt] Let_def send_def)
      next
        case True
        let ?c2 = "c\<lparr>session := Some (sessions w)\<rparr>"
        let ?lg = "login_request (sessions w) ?c2"
        let ?w1 = "w\<lparr>sent := sent w @ [?rq]\<rparr>"
        let ?w2 = "\<lparr>sent = sent w @ [?rq, ?lg], sessions = sessions w + 1\<rparr>"
        have lg: "target_ok c endpoint ?lg"
          by (simp add: target_ok_def login_request_def)
        have L: "login srv (c, ?w1) = (fst (login srv (c, ?w1)), ?c2, ?w2)"
          by (simp add: login_unfold)
        show ?thesis
        proof (cases "fst (login srv (c, ?w1))")
          case (Inl e)
          with L have "login srv (c, ?w1) = (Inl e, ?c2, ?w2)" by simp
          with Some Response True
          have "request srv loads endpoint meth data attempt kwargs (c, w) = (Inl e, ?c2, ?w2)"
            by (simp add: request.simps [of _ _ _ _ _ attempt] Let_def send_def)
          with rq lg show ?thesis by simp
        next
          case (Inr u)
          with L have L': "login srv (c, ?w1) = (Inr u, ?c2, ?w2)" by simp
          with Some Response True
          have step: "request srv loads endpoint meth data attempt kwargs (c, w)
                  = request srv loads endpoint meth data (attempt + 1) ?kw (?c2, ?w2)"
            by (simp add: request.simps [of _ _ _ _ _ attempt] Let_def send_def)
          have "\<exists>rs. sent (snd (snd (request srv loads endpoint meth data (attempt + 1) ?kw
                           (?c2, ?w2)))) = sent ?w2 @ rs
                    \<and> (\<forall>r\<in>set rs. target_ok ?c2 endpoint r)"
          proof -
            have s5: "(Response st body, ?w1) = send srv w ?rq"
              using Response by (simp add: send_def)
            have l8: "(Inr u, (?c2, ?w2)) = login srv (c, ?w1)"
              using L' by simp
            show ?thesis
              by (rule "1.hyps" [OF refl refl refl Some s5 refl True l8 refl])
          qed
          then obtain rs where rs:
            "sent (snd (snd (request srv loads endpoint meth data (attempt + 1) ?kw (?c2, ?w2))))
               = sent ?w2 @ rs" "\<forall>r\<in>set rs. target_ok ?c2 endpoint r"
            by blast
          have "target_ok ?c2 endpoint = target_ok c endpoint"
            by (simp add: target_ok_def fun_eq_iff)
          with rs rq lg step show ?thesis by simp
        qed
      qed
    qed
  qed
qed

lemma decode_response_success:
  "\<not> (400 \<le> st \<and> st < 600) \<Longrightarrow> loads ''{}'' = Some (PDict []) \<Longrightarrow>
     decode_response loads st u txt
       = Inr (if txt = [] then PDict [] else (case loads txt of Some v \<Rightarrow> v | None \<Rightarrow> PStr txt))"
  by (simp add: decode_response_def raise_for_status_def split: option.splits)

lemma init_url:
  "url (fst (snd (init srv u user pw v t mx w0)))
     = (if endswith u ''/'' then u else u @ ''/'') @ ''api/v2/''"
  by (simp add: init_def login_unfold Let_def)

lemma endswith_snoc_slash: "endswith (root @ ''/'') ''/''"
  by (simp add: endswith_def)

text \<open>
  Whatever the server answers, \<^verbatim>\<open>login\<close> leaves the new session object in the client and
  does not touch the authenticated flag.
\<close>

lemma login_state:
  "session (fst (snd (login srv (c, w)))) = Some (sessions w)
   \<and> is_authenticated (fst (snd (login srv (c, w)))) = is_authenticated c"
  by (simp add: login_unfold)

text \<open>
  The request of \<^verbatim>\<open>login\<close> never has a \<^verbatim>\<open>timeout\<close> keyword, while every request that
  \<^verbatim>\<open>_request\<close> sends to its endpoint has the client's (see \<open>request_sends\<close>).
\<close>

lemma login_request_no_timeout:
  "new_requests w (snd (snd (login srv (c, w))))
     = [login_request (sessions w) (c\<lparr>session := Some (sessions w)\<rparr>)]
   \<and> dict_get (rq_kwargs (login_request sid c')) ''timeout'' = None"
  by (simp add: login_unfold new_requests_def login_request_def)

subsection \<open>Retrying after 403\<close>

text \<open>
  C1. The claim: when the server answers 403 to every attempt, the call fails with the
  request error after exactly \<open>max_attempts_on_403 + 1\<close> requests of the original call.
  What \<^verbatim>\<open>_request\<close> does, for a limit of at least \<open>-1\<close> and logins that are accepted: it
  raises \<^verbatim>\<open>HTTPError\<close> for the 403 after exactly \<open>max_attempts_on_403 + 2\<close> requests to the
  endpoint and \<open>max_attempts_on_403 + 1\<close> logins, one more of each than the documented
  limit allows, because the guard is \<^verbatim>\<open>attempt <= self._max_attempts_on_403\<close>.
\<close>

theorem request_always_forbidden_attempts:
  assumes "session c = Some sid"
    and "- 1 \<le> max_attempts_on_403 c"
    and "\<forall>h r. rq_url r = url c @ endpoint \<longrightarrow> (\<exists>t. srv h r = Response 403 t)"
    and "\<forall>h r. rq_url r = url c @ ''auth/login'' \<longrightarrow> (\<exists>st. srv h r = Response st ''Ok.'')"
    and "endpoint \<noteq> ''auth/login''"
  shows "\<exists>c' w'. request srv loads endpoint method data 0 kwargs (c, w)
                   = (Inl (HTTPError 403 (url c @ endpoint)), c', w')
               \<and> calls_to (url c @ endpoint) (sent w')
                   = calls_to (url c @ endpoint) (sent w) + nat (max_attempts_on_403 c + 2)
               \<and> calls_to (url c @ ''auth/login'') (sent w')
                   = calls_to (url c @ ''auth/login'') (sent w) + nat (max_attempts_on_403 c + 1)"
proof -
  have le: "0 \<le> max_attempts_on_403 c + 1"
    using assms(2) by simp
  have "\<exists>c' w'. request srv loads endpoint method data 0 kwargs (c, w)
                   = (Inl (HTTPError 403 (url c @ endpoint)), c', w')
               \<and> calls_to (url c @ endpoint) (sent w')
                   = calls_to (url c @ endpoint) (sent w) + nat (max_attempts_on_403 c + 1) + 1
               \<and> calls_to (url c @ ''auth/login'') (sent w')
                   = calls_to (url c @ ''auth/login'') (sent w) + nat (max_attempts_on_403 c + 1)"
    by (rule always_forbidden_from [OF assms(3) assms(4) assms(5) refl assms(1) le]) simp
  moreover have "nat (max_attempts_on_403 c + 2) = Suc (nat (max_attempts_on_403 c + 1))"
    using assms(2) by simp
  ultimately show ?thesis by simp
qed

text \<open>
  With the default limit 3 and no earlier request to the endpoint, the endpoint is
  requested 5 times, not 4; the login of the constructor and 4 more logins make 5.
\<close>

theorem request_always_forbidden_attempts_witness:
  "\<exists>c' w'. request stub_forbidden sample_loads ''app/version'' ''get'' PNone 0 []
              (sample_client, sample_world)
             = (Inl (HTTPError 403 ''http://qb:8080/api/v2/app/version''), c', w')
         \<and> calls_to ''http://qb:8080/api/v2/app/version'' (sent w') = 5
         \<and> calls_to ''http://qb:8080/api/v2/auth/login'' (sent w') = 5"
  using request_always_forbidden_attempts [of sample_client 0 "''app/version''" stub_forbidden
      sample_loads "''get''" PNone "[]" sample_world]
  by (simp add: sample_client_def sample_world_def stub_forbidden_def calls_to_def
      login_request_def)



subsection \<open>Login\<close>

text \<open>
  C3. The claim: a login whose answer is the success text stores the new session and marks
  the client authenticated; any other answer raises the credentials error and leaves no
  session set. Evaluated on the code: the constructor against a server that accepts the
  login returns a client whose \<open>is_authenticated\<close> is still \<open>False\<close>, and against a server
  that rejects it raises \<^verbatim>\<open>WrongCredentials\<close> with the session object of the failed login
  still stored.
\<close>

theorem login_state_evaluated:
  "init (stub_server 0 200 ''v4.3.2'') ''http://qb:8080'' ''admin'' ''adminadmin'' True
        (PInt 5) 3 fresh_world
     = (Inr (), sample_client, sample_world)
   \<and> is_authenticated sample_client = False
   \<and> fst (init stub_rejecting ''http://qb:8080'' ''admin'' ''adminadmin'' True (PInt 5) 3
            fresh_world)
       = Inl WrongCredentials
   \<and> session (fst (snd (init stub_rejecting ''http://qb:8080'' ''admin'' ''adminadmin'' True
                          (PInt 5) 3 fresh_world)))
       = Some 0"
  by (simp add: init_def endswith_def login_unfold fresh_world_def sample_client_def
      sample_world_def stub_server_def stub_rejecting_def login_request_def)

text \<open>
  C4. For every response to the login request, \<^verbatim>\<open>login\<close> returns normally exactly when
  the text of the response is \<^verbatim>\<open>Ok.\<close>; with any other text it raises
  \<^verbatim>\<open>WrongCredentials\<close>, whatever the status code is.
\<close>

theorem login_accepts_exactly_ok:
  assumes "srv (sent w) (login_request (sessions w) (c\<lparr>session := Some (sessions w)\<rparr>))
             = Response st txt"
  shows "(fst (login srv (c, w)) = Inr ()) = (txt = ''Ok.'')
         \<and> (txt \<noteq> ''Ok.'' \<longrightarrow> fst (login srv (c, w)) = Inl WrongCredentials)"
  using assms by (simp add: login_unfold)

text \<open>
  Status 200 with the text \<^verbatim>\<open>Fails.\<close> is rejected, and the text \<^verbatim>\<open>Ok.\<close> is accepted.
\<close>

theorem login_accepts_exactly_ok_witness:
  "fst (login stub_rejecting (sample_client, sample_world)) = Inl WrongCredentials
   \<and> fst (login stub_rejecting (sample_client, sample_world)) \<noteq> Inr ()
   \<and> fst (login (stub_server 0 404 ''Not Found'') (sample_client, sample_world)) = Inr ()"
  using login_accepts_exactly_ok [of stub_rejecting sample_world sample_client 200 "''Fails.''"]
    login_accepts_exactly_ok [of "stub_server 0 404 ''Not Found''" sample_world sample_client
      200 "''Ok.''"]
  by (simp add: stub_rejecting_def stub_server_def login_request_def sample_client_def)

subsection \<open>Normalising batch targets\<close>

text \<open>
  C5, as claimed: the normalised value is never the empty string. It fails on the empty
  list, whose value is the empty string.
\<close>

theorem normalizer_empty_list_counterexample:
  "process_infohash_list (Many []) = PDict [(''hashes'', PStr [])]"
  by simp

text \<open>
  C5, amended. The normalised value is the empty string exactly for three inputs: the
  empty string, the empty list, and the list that holds only the empty string. For every
  other string or list of strings it is not empty.
\<close>

theorem normalizer_empty_iff:
  "(process_infohash_list t = PDict [(''hashes'', PStr [])])
     = (t = Single [] \<or> t = Many [] \<or> t = Many [[]])"
  by (cases t) (auto simp: join_Nil_iff lower_Nil_iff map_lower_single)

theorem normalizer_empty_iff_witness:
  "process_infohash_list (Many [''AB12'', ''cd34'']) \<noteq> PDict [(''hashes'', PStr [])]
   \<and> process_infohash_list (Many [[]]) = PDict [(''hashes'', PStr [])]"
  using normalizer_empty_iff [of "Many [''AB12'', ''cd34'']"]
    normalizer_empty_iff [of "Many [[]]"]
  by simp

text \<open>
  C6. The normaliser returns the dictionary with the one key \<^verbatim>\<open>hashes\<close>. Its value is the
  lower-cased string for one info hash, and the lower-cased strings joined by \<^verbatim>\<open>|\<close> for a
  list: \<^verbatim>\<open>["AB12", "cd34"]\<close> gives \<^verbatim>\<open>ab12|cd34\<close>, \<^verbatim>\<open>AB12\<close> gives \<^verbatim>\<open>ab12\<close>, and the word
  \<^verbatim>\<open>all\<close> stays as it is.
\<close>

theorem normalizer_wire_value:
  "process_infohash_list (Single h) = PDict [(''hashes'', PStr (lower h))]
   \<and> process_infohash_list (Many hs) = PDict [(''hashes'', PStr (join ''|'' (map lower hs)))]
   \<and> process_infohash_list (Many [''AB12'', ''cd34'']) = PDict [(''hashes'', PStr ''ab12|cd34'')]
   \<and> process_infohash_list (Single ''AB12'') = PDict [(''hashes'', PStr ''ab12'')]
   \<and> process_infohash_list (Single ''all'') = PDict [(''hashes'', PStr ''all'')]"
proof -
  have a: "process_infohash_list (Many [''AB12'', ''cd34''])
             = PDict [(''hashes'', PStr ''ab12|cd34'')]"
    by code_simp
  have b: "process_infohash_list (Single ''AB12'') = PDict [(''hashes'', PStr ''ab12'')]"
    by code_simp
  have c: "process_infohash_list (Single ''all'') = PDict [(''hashes'', PStr ''all'')]"
    by code_simp
  show ?thesis using a b c by simp
qed

subsection \<open>The value of a successful response\<close>

text \<open>
  C7. When the response has a status that is no error (outside 400 to 599), \<^verbatim>\<open>_request\<close>
  returns the empty dictionary for an empty text, the decoded value when the text decodes
  as JSON, and the text itself when decoding fails. The decoder is any function that
  decodes \<^verbatim>\<open>{}\<close> to the empty dictionary.
\<close>

theorem request_success_value:
  assumes "session c = Some sid"
    and "\<forall>r. rq_url r = url c @ endpoint \<longrightarrow> srv (sent w) r = Response st txt"
    and "\<not> (400 \<le> st \<and> st < 600)"
    and "loads ''{}'' = Some (PDict [])"
  shows "fst (request srv loads endpoint method data attempt kwargs (c, w))
           = Inr (if txt = [] then PDict []
                  else (case loads txt of Some v \<Rightarrow> v | None \<Rightarrow> PStr txt))"
proof -
  let ?kw = "dict_set (dict_set kwargs ''verify'' (PBool (verify c))) ''timeout'' (timeout c)"
  let ?rq = "outgoing sid method (url c @ endpoint) data ?kw"
  have t: "srv (sent w) ?rq = Response st txt"
    using assms(2) by (simp add: rq_url_outgoing)
  have n: "\<not> (st = 403 \<and> attempt \<le> max_attempts_on_403 c)"
    using assms(3) by auto
  have "request srv loads endpoint method data attempt kwargs (c, w) =
          (decode_response loads st (url c @ endpoint) txt, c, w\<lparr>sent := sent w @ [?rq]\<rparr>)"
    using assms(1) t n by (rule request_final)
  then show ?thesis
    using assms(3) assms(4) by (simp add: decode_response_success)
qed

text \<open>
  The version string comes back as it is, the empty text as the empty dictionary, and the
  text \<^verbatim>\<open>[]\<close> as the empty list.
\<close>

theorem request_success_value_witness:
  "fst (request (stub_server 0 200 ''v4.3.2'') sample_loads ''app/version'' ''get'' PNone 0 []
          (sample_client, sample_world)) = Inr (PStr ''v4.3.2'')
   \<and> fst (request (stub_server 0 200 []) sample_loads ''app/shutdown'' ''get'' PNone 0 []
          (sample_client, sample_world)) = Inr (PDict [])
   \<and> fst (request (stub_server 0 200 ''[]'') sample_loads ''torrents/info'' ''get'' PNone 0 []
          (sample_client, sample_world)) = Inr (PList [])"
  using request_success_value [of sample_client 0 "''app/version''" "stub_server 0 200 ''v4.3.2''"
      sample_world 200 "''v4.3.2''" sample_loads "''get''" PNone 0 "[]"]
    request_success_value [of sample_client 0 "''app/shutdown''" "stub_server 0 200 []"
      sample_world 200 "[]" sample_loads "''get''" PNone 0 "[]"]
    request_success_value [of sample_client 0 "''torrents/info''" "stub_server 0 200 ''[]''"
      sample_world 200 "''[]''" sample_loads "''get''" PNone 0 "[]"]
  by (simp add: sample_client_def stub_server_def sample_loads_def)

subsection \<open>Timeouts\<close>

text \<open>
  C8. The claim: every request that the client sends, the login request included, carries
  the configured timeout. Evaluated on the code with the timeout 5: the request of
  \<^verbatim>\<open>login\<close> has no \<^verbatim>\<open>timeout\<close> keyword at all, while the request of a \<^verbatim>\<open>_get\<close> has the 5.
\<close>

theorem login_request_without_timeout:
  "timeout sample_client = PInt 5
   \<and> map (\<lambda>r. dict_get (rq_kwargs r) ''timeout'')
         (new_requests sample_world
            (snd (snd (login (stub_server 0 200 ''v4.3.2'') (sample_client, sample_world)))))
       = [None]
   \<and> map (\<lambda>r. dict_get (rq_kwargs r) ''timeout'')
         (new_requests sample_world
            (snd (snd (get (stub_server 0 200 ''v4.3.2'') sample_loads ''app/version'' []
                         (sample_client, sample_world)))))
       = [Some (PInt 5)]"
  by (simp add: login_unfold get_def request.simps send_def outgoing_def new_requests_def
      sample_client_def sample_world_def stub_server_def login_request_def Let_def)

subsection \<open>Checking the priority before the network\<close>

text \<open>
  C9. When the priority is not one of 0, 1, 2, 4, 6, 7, \<^verbatim>\<open>set_file_priority\<close> raises the
  \<^verbatim>\<open>ValueError\<close> and leaves the client and the world as they were, so that no request is
  sent; and whenever a request is sent, the priority is one of these numbers and the file
  id is an integer.
\<close>

theorem set_file_priority_validates_first:
  "(py_num priority \<notin> Some ` {0, 1, 2, 4, 6, 7} \<longrightarrow>
      set_file_priority srv loads infohash file_id priority (c, w)
        = (Inl (ValueError ''Invalid priority, refer WEB-UI docs for info.''), c, w))
   \<and> (sent (snd (snd (set_file_priority srv loads infohash file_id priority (c, w)))) \<noteq> sent w
        \<longrightarrow> py_num priority \<in> Some ` {0, 1, 2, 4, 6, 7} \<and> isinstance_int file_id)"
  by (auto simp: set_file_priority_def py_in_ints_def)

text \<open>
  Priority 3 is refused with nothing sent; priority 7 for the file 0 reaches the server.
\<close>

theorem set_file_priority_validates_first_witness:
  "set_file_priority (stub_server 0 200 []) sample_loads ''ABCDEF'' (PInt 0) (PInt 3)
       (sample_client, sample_world)
     = (Inl (ValueError ''Invalid priority, refer WEB-UI docs for info.''),
        sample_client, sample_world)
   \<and> sent (snd (snd (set_file_priority (stub_server 0 200 []) sample_loads ''ABCDEF''
                        (PInt 0) (PInt 7) (sample_client, sample_world)))) \<noteq> sent sample_world
   \<and> py_num (PInt 7) \<in> Some ` {0, 1, 2, 4, 6, 7} \<and> isinstance_int (PInt 0)"
proof -
  have a: "py_num (PInt 3) \<notin> Some ` {0, 1, 2, 4, 6, 7}"
    by simp
  have b: "sent (snd (snd (set_file_priority (stub_server 0 200 []) sample_loads ''ABCDEF''
                        (PInt 0) (PInt 7) (sample_client, sample_world)))) \<noteq> sent sample_world"
    by (simp add: set_file_priority_def py_in_ints_def post_def request.simps send_def
        outgoing_def sample_client_def sample_world_def stub_server_def Let_def
        decode_response_def raise_for_status_def sample_loads_def calls_to_def)
  show ?thesis
    using set_file_priority_validates_first [of "PInt 3" "stub_server 0 200 []" sample_loads
        "''ABCDEF''" "PInt 0" sample_client sample_world]
      set_file_priority_validates_first [of "PInt 7" "stub_server 0 200 []" sample_loads
        "''ABCDEF''" "PInt 0" sample_client sample_world] a b
    by blast
qed

subsection \<open>The URL of a request\<close>

text \<open>
  C10, as claimed: for every base URL string the URL of a request has no doubled slash
  between the root and the API path. It fails on a base URL that ends in two slashes: the
  constructor finds a final slash, appends none and removes none, and the requests go to
  a URL with \<^verbatim>\<open>//api/v2/\<close>.
\<close>

theorem base_url_double_slash_counterexample:
  "url (fst (snd (init (stub_server 0 200 ''v4.3.2'') ''http://qb:8080//'' ''admin''
                   ''adminadmin'' True (PInt 5) 3 fresh_world)))
     = ''http://qb:8080//api/v2/''
   \<and> map rq_url
         (sent (snd (snd (get (stub_server 0 200 ''v4.3.2'') sample_loads ''app/version'' []
                  (snd (init (stub_server 0 200 ''v4.3.2'') ''http://qb:8080//'' ''admin''
                          ''adminadmin'' True (PInt 5) 3 fresh_world))))))
     = [''http://qb:8080//api/v2/auth/login'', ''http://qb:8080//api/v2/app/version'']"
  by (simp add: init_def endswith_def login_unfold fresh_world_def get_def request.simps
      send_def outgoing_def stub_server_def login_request_def Let_def calls_to_def)

text \<open>
  C10, amended. The constructor appends one slash exactly when the base URL does not end
  with a slash, and then \<^verbatim>\<open>api/v2/\<close>; it never removes a slash. So for a base URL that
  is \<open>root\<close> without a final slash, or \<open>root\<close> followed by one slash, it stores
  \<open>root/api/v2/\<close>, and every request goes there: the login of the constructor and the
  logins after a 403 to \<open>root/api/v2/auth/login\<close>, and every other request of
  \<^verbatim>\<open>_request\<close> to \<open>root/api/v2/\<close> followed by the endpoint. Slashes that the base URL has
  before its last one belong to \<open>root\<close> and stay in the URL.
\<close>

theorem request_targets_api_path:
  assumes "(u = root \<and> \<not> endswith root ''/'') \<or> u = root @ ''/''"
  shows "url (fst (snd (init srv u user pw v t mx w0))) = root @ ''/api/v2/''
    \<and> (\<forall>r \<in> set (new_requests w0 (snd (snd (init srv u user pw v t mx w0)))).
          rq_url r = root @ ''/api/v2/auth/login'')
    \<and> (\<forall>r \<in> set (new_requests w (snd (snd (request srv' loads endpoint verb data attempt kwargs
                         (fst (snd (init srv u user pw v t mx w0)), w))))).
          rq_url r = root @ ''/api/v2/'' @ endpoint \<or> rq_url r = root @ ''/api/v2/auth/login'')"
proof -
  let ?c = "fst (snd (init srv u user pw v t mx w0))"
  have u: "url ?c = root @ ''/api/v2/''"
    using assms by (auto simp: init_url endswith_snoc_slash)
  have "new_requests w0 (snd (snd (init srv u user pw v t mx w0)))
          = [login_request (sessions w0) ?c]"
    by (simp add: init_def login_unfold new_requests_def Let_def)
  then have l: "\<forall>r \<in> set (new_requests w0 (snd (snd (init srv u user pw v t mx w0)))).
          rq_url r = root @ ''/api/v2/auth/login''"
    using u by (simp add: rq_url_login_request)
  obtain rs where rs:
    "sent (snd (snd (request srv' loads endpoint verb data attempt kwargs (?c, w)))) = sent w @ rs"
    "\<forall>r\<in>set rs. target_ok ?c endpoint r"
    using request_sends [of srv' loads endpoint verb data attempt kwargs ?c w] by blast
  have "new_requests w (snd (snd (request srv' loads endpoint verb data attempt kwargs (?c, w))))
          = rs"
    using rs(1) by (simp add: new_requests_def)
  with rs(2) u l show ?thesis
    by (auto simp: target_ok_def)
qed

text \<open>
  Both \<^verbatim>\<open>http://qb:8080\<close> and \<^verbatim>\<open>http://qb:8080/\<close> give the same URLs; a call that is
  answered 403 once sends its request, a login, and its request again.
\<close>

theorem request_targets_api_path_witness:
  "url (fst (snd (init (stub_server 0 200 ''v4.3.2'') ''http://qb:8080'' ''admin'' ''adminadmin''
                   True (PInt 5) 3 fresh_world))) = ''http://qb:8080/api/v2/''
   \<and> url (fst (snd (init (stub_server 0 200 ''v4.3.2'') ''http://qb:8080/'' ''admin''
                   ''adminadmin'' True (PInt 5) 3 fresh_world))) = ''http://qb:8080/api/v2/''
   \<and> map rq_url (new_requests sample_world
                    (snd (snd (request (stub_server 1 200 ''v4.3.2'') sample_loads ''app/version''
                                 ''get'' PNone 0 []
                                 (fst (snd (init (stub_server 0 200 ''v4.3.2'') ''http://qb:8080/''
                                              ''admin'' ''adminadmin'' True (PInt 5) 3
                                              fresh_world)), sample_world)))))
       = [''http://qb:8080/api/v2/app/version'', ''http://qb:8080/api/v2/auth/login'',
          ''http://qb:8080/api/v2/app/version'']"
proof -
  have e: "map rq_url (new_requests sample_world
                    (snd (snd (request (stub_server 1 200 ''v4.3.2'') sample_loads ''app/version''
                                 ''get'' PNone 0 []
                                 (fst (snd (init (stub_server 0 200 ''v4.3.2'') ''http://qb:8080/''
                                              ''admin'' ''adminadmin'' True (PInt 5) 3
                                              fresh_world)), sample_world)))))
       = [''http://qb:8080/api/v2/app/version'', ''http://qb:8080/api/v2/auth/login'',
          ''http://qb:8080/api/v2/app/version'']"
    by (simp add: init_def endswith_def login_unfold fresh_world_def request.simps send_def
        outgoing_def new_requests_def sample_world_def sample_client_def stub_server_def
        login_request_def Let_def calls_to_def decode_response_def raise_for_status_def
        sample_loads_def)
  show ?thesis
    using request_targets_api_path [where u = "''http://qb:8080''" and root = "''http://qb:8080''"
        and srv = "stub_server 0 200 ''v4.3.2''" and user = "''admin''" and pw = "''adminadmin''"
        and v = True and t = "PInt 5" and mx = 3 and ?w0.0 = fresh_world]
      request_targets_api_path [where u = "''http://qb:8080/''" and root = "''http://qb:8080''"
        and srv = "stub_server 0 200 ''v4.3.2''" and user = "''admin''" and pw = "''adminadmin''"
        and v = True and t = "PInt 5" and mx = 3 and ?w0.0 = fresh_world and w = sample_world
        and srv' = "stub_server 1 200 ''v4.3.2''" and loads = sample_loads
        and endpoint = "''app/version''" and verb = "''get''" and data = PNone
        and attempt = 0 and kwargs = "[]"] e
    by (simp add: endswith_def)
qed

end
